theory Spec2Isabelle
  imports Main
begin

section \<open>Prompt resolution and the provider-prompt map (src/prompts/index.ts)\<close>

text \<open>
  A shallow embedding of the three exported functions of \<^verbatim>\<open>src/prompts/index.ts\<close>:
  \<^verbatim>\<open>readProviderPromptMap\<close>, \<^verbatim>\<open>processPrompt\<close> and \<^verbatim>\<open>readPrompts\<close>.
  Exceptions are values of the type \<open>error\<close>, and a function that may throw returns
  \<open>error + 'a\<close> (\<open>Inl\<close> the exception). The functions of other modules the file
  imports (the path classifier, the glob provider, the format handlers, the input
  normalizer, the template-variable extractor and the environment lookup) are the
  fields of a record \<open>env\<close> that every function takes as its first argument.
\<close>

subsection \<open>Data model\<close>

text \<open>A callable reference (a JavaScript function value), identified by a name.\<close>

datatype callable = Callable string

text \<open>
  Modelled from the spec: the declaration of the type \<^verbatim>\<open>Prompt\<close> is in \<^verbatim>\<open>../types\<close>;
  the fields are the three of the spec's data model. \<^verbatim>\<open>Partial<Prompt>\<close> makes
  every field optional, so the type of \<open>raw\<close> is a parameter: \<open>string option\<close> in a
  partial, \<open>string\<close> in a resolved prompt. The label stays optional in a resolved prompt
  because \<^verbatim>\<open>prompt as Prompt\<close> (line 100) asserts the type of a partial without
  adding a label to it.
\<close>

record 'r prompt_fields =
  raw :: 'r
  label :: "string option"
  func :: "callable option"

type_synonym prompt_partial = "string option prompt_fields"
type_synonym prompt = "string prompt_fields"

text \<open>The result of \<^verbatim>\<open>parsePathOrGlob\<close>, as destructured at lines 107 to 117.\<close>

record path_info =
  extension :: "string option"
  functionName :: "string option"
  isPathPattern :: bool
  filePath :: string

text \<open>
  The exceptions. \<open>InvariantFailed\<close> carries the message of a failed \<^verbatim>\<open>invariant\<close>;
  \<open>NoPromptsError v\<close> is the error of line 186, whose message names
  \<^verbatim>\<open>JSON.stringify(v)\<close> for the raw value \<open>v\<close> of the partial; \<open>TypeError\<close> is the
  language's own exception on reading a property of \<^verbatim>\<open>undefined\<close>; \<open>HandlerError\<close> is
  whatever a format handler throws.
\<close>

datatype error =
    InvariantFailed string
  | NoPromptsError "string option"
  | TypeError string
  | HandlerError string

text \<open>
  The first parameter of \<^verbatim>\<open>readPrompts\<close>:
  \<^verbatim>\<open>string | (string | Partial<Prompt>)[] | Record<string, string>\<close>.
\<close>

datatype prompt_input =
    InputString string
  | InputList "(string + prompt_partial) list"
  | InputRecord "(string \<times> string) list"

text \<open>
  The imported functions. A format handler reads a file and may throw; the classifier,
  the glob provider and the normalizer return a value.
\<close>

record env =
  maybeFilePath :: "string \<Rightarrow> bool"
  parsePathOrGlob :: "string \<Rightarrow> string \<Rightarrow> path_info"
  globSync :: "string \<Rightarrow> string list"
  isJavascriptFile :: "string \<Rightarrow> bool"
  processJsonFile :: "string \<Rightarrow> prompt_partial \<Rightarrow> error + prompt list"
  processJsonlFile :: "string \<Rightarrow> prompt_partial \<Rightarrow> error + prompt list"
  processJsFile :: "string \<Rightarrow> prompt_partial \<Rightarrow> string option \<Rightarrow> error + prompt list"
  processMarkdownFile :: "string \<Rightarrow> prompt_partial \<Rightarrow> error + prompt list"
  processPythonFile :: "string \<Rightarrow> prompt_partial \<Rightarrow> string option \<Rightarrow> error + prompt list"
  processTxtFile :: "string \<Rightarrow> prompt_partial \<Rightarrow> error + prompt list"
  processYamlFile :: "string \<Rightarrow> prompt_partial \<Rightarrow> error + prompt list"
  normalizeInput :: "prompt_input \<Rightarrow> prompt_partial list"
  extractVariablesFromTemplates :: "string list \<Rightarrow> string list"
  getEnvBool :: "string \<Rightarrow> bool"

subsection \<open>processPrompt\<close>

text \<open>
  Modelled from the spec: \<^verbatim>\<open>processString\<close> is in \<^verbatim>\<open>./processors/string\<close>.
  Literal-string processing wraps the raw text as a single prompt whose label is the
  partial's label when it has one and the raw text otherwise; a partial without the
  required field \<open>raw\<close> is a fatal contract violation.
\<close>

definition processString :: "prompt_partial \<Rightarrow> error + prompt list" where
  "processString p =
     (case raw p of
        None \<Rightarrow> Inl (InvariantFailed ''prompt.raw must be a string, but got undefined'')
      | Some r \<Rightarrow>
          Inr [\<lparr>raw = r, label = Some (case label p of None \<Rightarrow> r | Some l \<Rightarrow> l),
                func = None\<rparr>])"

text \<open>\<^verbatim>\<open>filePath.replace(/\\/g, '/')\<close>: every backslash becomes a forward slash.\<close>

definition replaceBackslashes :: "string \<Rightarrow> string" where
  "replaceBackslashes s = map (\<lambda>c. if c = CHR 0x5C then CHR ''/'' else c) s"

text \<open>
  The loop of lines 126 to 134: each element is resolved in turn and its prompts are
  pushed on the accumulator; an exception of a resolution leaves the loop.
\<close>

fun pushAll :: "('a \<Rightarrow> error + 'b list) \<Rightarrow> 'a list \<Rightarrow> 'b list \<Rightarrow> error + 'b list" where
  "pushAll f [] prompts = Inr prompts"
| "pushAll f (x # xs) prompts =
     (case f x of
        Inl e \<Rightarrow> Inl e
      | Inr processedPrompts \<Rightarrow> pushAll f xs (prompts @ processedPrompts))"

lemma pushAll_cong [fundef_cong]:
  "xs = ys \<Longrightarrow> acc = acc' \<Longrightarrow> (\<And>x. x \<in> set ys \<Longrightarrow> f x = g x)
   \<Longrightarrow> pushAll f xs acc = pushAll g ys acc'"
  by (induction ys arbitrary: xs acc acc') (auto split: sum.splits)

text \<open>Lines 145 to 166: the dispatch on the extension.\<close>

definition dispatchByExtension :: "env \<Rightarrow> path_info \<Rightarrow> prompt_partial \<Rightarrow> error + prompt list" where
  "dispatchByExtension E info p =
     (if extension info = Some ''.json'' then processJsonFile E (filePath info) p
      else if extension info = Some ''.jsonl'' then processJsonlFile E (filePath info) p
      else if (case extension info of None \<Rightarrow> False
               | Some ext \<Rightarrow> ext \<noteq> [] \<and> isJavascriptFile E ext)
        then processJsFile E (filePath info) p (functionName info)
      else if extension info = Some ''.md'' then processMarkdownFile E (filePath info) p
      else if extension info = Some ''.py''
        then processPythonFile E (filePath info) p (functionName info)
      else if extension info = Some ''.txt'' then processTxtFile E (filePath info) p
      else if (case extension info of None \<Rightarrow> False
               | Some ext \<Rightarrow> ext \<noteq> [] \<and> ext \<in> set [''.yml'', ''.yaml''])
        then processYamlFile E (filePath info) p
      else Inr [])"

function processPrompt :: "env \<Rightarrow> prompt_partial \<Rightarrow> string \<Rightarrow> int \<Rightarrow> error + prompt list" where
  "processPrompt E p basePath maxRecursionDepth =
     (case raw p of
        None \<Rightarrow> Inl (InvariantFailed ''prompt.raw must be a string, but got undefined'')
      | Some r \<Rightarrow>
          if func p \<noteq> None then Inr [\<lparr>raw = r, label = label p, func = func p\<rparr>]
          else if \<not> maybeFilePath E r then processString p
          else
            let info = parsePathOrGlob E basePath r in
            if isPathPattern info \<and> maxRecursionDepth > 0 then
              (case pushAll
                      (\<lambda>globbedFilePath.
                         processPrompt E \<lparr>raw = Some globbedFilePath, label = None, func = None\<rparr>
                           basePath (maxRecursionDepth - 1))
                      (globSync E (replaceBackslashes (filePath info))) [] of
                 Inl e \<Rightarrow> Inl e
               | Inr prompts \<Rightarrow>
                   if prompts = [] then
                     (case processString p of
                        Inl e \<Rightarrow> Inl e
                      | Inr literal \<Rightarrow> Inr (prompts @ literal))
                   else Inr prompts)
            else dispatchByExtension E info p)"
  by pat_completeness auto
termination
  by (relation "measure (\<lambda>(E, p, basePath, maxRecursionDepth). nat maxRecursionDepth)") auto

subsection \<open>readPrompts\<close>

text \<open>
  Lines 188 to 194: every prompt of a batch is pushed on \<open>prompts\<close>; one without template
  variables is recorded in \<open>promptsWithoutVars\<close> unless the warning is disabled.
\<close>

fun collectBatch :: "env \<Rightarrow> prompt list \<Rightarrow> prompt list \<times> string list \<Rightarrow> prompt list \<times> string list" where
  "collectBatch E [] st = st"
| "collectBatch E (processedPrompt # rest) (prompts, promptsWithoutVars) =
     (let variables = extractVariablesFromTemplates E [raw processedPrompt] in
      collectBatch E rest
        (prompts @ [processedPrompt],
         if variables = [] \<and> \<not> getEnvBool E ''PROMPTFOO_DISABLE_NO_VARIABLE_WARNING''
         then promptsWithoutVars @
           [case label processedPrompt of
              None \<Rightarrow> take 50 (raw processedPrompt)
            | Some l \<Rightarrow> if l \<noteq> [] then l else take 50 (raw processedPrompt)]
         else promptsWithoutVars))"

text \<open>Lines 183 to 195: the partials are resolved in sequence with the default depth 1.\<close>

fun readPromptsLoop ::
  "env \<Rightarrow> string \<Rightarrow> prompt_partial list \<Rightarrow> prompt list \<times> string list
   \<Rightarrow> error + prompt list \<times> string list" where
  "readPromptsLoop E basePath [] st = Inr st"
| "readPromptsLoop E basePath (p # ps) st =
     (case processPrompt E p basePath 1 of
        Inl e \<Rightarrow> Inl e
      | Inr promptBatch \<Rightarrow>
          if promptBatch = [] then Inl (NoPromptsError (raw p))
          else readPromptsLoop E basePath ps (collectBatch E promptBatch st))"


text \<open>
  What \<^verbatim>\<open>readPrompts\<close> logs at lines 196 to 203: the number of prompts without
  variables, up to three examples, and whether the list of examples is cut.
\<close>

datatype warning = NoVariablesWarning nat "string list" bool

definition readPromptsWarning :: "env \<Rightarrow> prompt_input \<Rightarrow> string \<Rightarrow> warning option" where
  "readPromptsWarning E promptPathOrGlobs basePath =
     (case readPromptsLoop E basePath (normalizeInput E promptPathOrGlobs) ([], []) of
        Inl e \<Rightarrow> None
      | Inr (prompts, promptsWithoutVars) \<Rightarrow>
          if length promptsWithoutVars > 0
          then Some (NoVariablesWarning (length promptsWithoutVars) (take 3 promptsWithoutVars)
                       (length promptsWithoutVars > 3))
          else None)"

subsection \<open>readProviderPromptMap\<close>

text \<open>
  The function inspects the shape of its provider entries at run time (an entry is read
  as a \<^verbatim>\<open>ProviderOptions\<close> or as a \<^verbatim>\<open>ProviderOptionsMap\<close> by the truthiness of its
  \<^verbatim>\<open>id\<close>), so an entry is a JavaScript object: its own properties in the order
  \<^verbatim>\<open>Object.keys\<close> lists them. The values are strings, arrays and objects; a number,
  a boolean or \<^verbatim>\<open>null\<close> is not among them.
\<close>

datatype jsval =
    JUndefined
  | JString string
  | JArray "jsval list"
  | JObject "(string \<times> jsval) list"

fun truthy :: "jsval \<Rightarrow> bool" where
  "truthy JUndefined = False"
| "truthy (JString s) = (s \<noteq> [])"
| "truthy (JArray xs) = True"
| "truthy (JObject kvs) = True"

text \<open>\<^verbatim>\<open>obj[k]\<close> on an object: the value of the property, \<^verbatim>\<open>undefined\<close> when absent.\<close>

definition getProp :: "(string \<times> jsval) list \<Rightarrow> string \<Rightarrow> jsval" where
  "getProp obj k = (case map_of obj k of None \<Rightarrow> JUndefined | Some v \<Rightarrow> v)"

text \<open>
  \<^verbatim>\<open>v.id\<close> and \<^verbatim>\<open>v.prompts\<close> on any value: a \<^verbatim>\<open>TypeError\<close> on \<^verbatim>\<open>undefined\<close>;
  a string or an array has neither property.
\<close>

fun readProp :: "jsval \<Rightarrow> string \<Rightarrow> error + jsval" where
  "readProp JUndefined k = Inl (TypeError (''Cannot read properties of undefined, reading '' @ k))"
| "readProp (JString s) k = Inr JUndefined"
| "readProp (JArray xs) k = Inr JUndefined"
| "readProp (JObject kvs) k = Inr (getProp kvs k)"

fun joinComma :: "string list \<Rightarrow> string" where
  "joinComma [] = []"
| "joinComma [s] = s"
| "joinComma (s # t # ss) = s @ '','' @ joinComma (t # ss)"

text \<open>
  The conversion of a value to a property key (\<^verbatim>\<open>ret[v] = ...\<close>): a string is its own
  key, an array is its elements joined by commas, an object is \<^verbatim>\<open>[object Object]\<close>.
\<close>

fun jsToString :: "jsval \<Rightarrow> string" where
  "jsToString JUndefined = ''undefined''"
| "jsToString (JString s) = s"
| "jsToString (JArray xs) =
     joinComma (map (\<lambda>x. if x = JUndefined then [] else jsToString x) xs)"
| "jsToString (JObject kvs) = ''[object Object]''"

text \<open>\<^verbatim>\<open>a || b\<close>.\<close>

definition orElse :: "jsval \<Rightarrow> jsval \<Rightarrow> jsval" where
  "orElse a b = (if truthy a then a else b)"

datatype provider =
    ProviderId string
  | ProviderFunction callable
  | ProviderObject "(string \<times> jsval) list"

datatype providers_value =
    ProvidersString string
  | ProvidersFunction callable
  | ProvidersList "provider list"

text \<open>\<^verbatim>\<open>Partial<UnifiedConfig>\<close>: the function reads the field \<^verbatim>\<open>providers\<close> only.\<close>

record config =
  providers :: "providers_value option"

text \<open>The value of \<^verbatim>\<open>prompt.label\<close>, pushed on \<^verbatim>\<open>allPrompts\<close> at line 44.\<close>

definition labelValue :: "prompt \<Rightarrow> jsval" where
  "labelValue p = (case label p of None \<Rightarrow> JUndefined | Some l \<Rightarrow> JString l)"

text \<open>
  The object \<^verbatim>\<open>ret\<close> of line 36: its own properties, and its prototype once an
  assignment has replaced it (\<open>None\<close> is the initial \<^verbatim>\<open>Object.prototype\<close>).
\<close>

record provider_prompt_map =
  own :: "string \<rightharpoonup> jsval"
  proto :: "jsval option"

text \<open>
  \<^verbatim>\<open>ret[k] = v\<close> (lines 64, 66 and 73) on that plain object. Every key adds or
  overwrites an own property except \<^verbatim>\<open>__proto__\<close>, which reaches the accessor of
  \<^verbatim>\<open>Object.prototype\<close>: an array or an object becomes the prototype of \<^verbatim>\<open>ret\<close>, any
  other value is ignored, and no own property is added.
\<close>

definition setProp :: "provider_prompt_map \<Rightarrow> string \<Rightarrow> jsval \<Rightarrow> provider_prompt_map" where
  "setProp ret k v =
     (if k = ''__proto__'' then
        (case v of
           JArray xs \<Rightarrow> ret\<lparr>proto := Some v\<rparr>
         | JObject kvs \<Rightarrow> ret\<lparr>proto := Some v\<rparr>
         | JString s \<Rightarrow> ret
         | JUndefined \<Rightarrow> ret)
      else ret\<lparr>own := (own ret)(k \<mapsto> v)\<rparr>)"

text \<open>Lines 56 to 75: the body of the loop over the provider list.\<close>

definition providerEntry ::
  "jsval \<Rightarrow> provider_prompt_map \<Rightarrow> provider \<Rightarrow> error + provider_prompt_map" where
  "providerEntry allPrompts ret provider =
     (case provider of
        ProviderId s \<Rightarrow> Inr ret
      | ProviderFunction f \<Rightarrow> Inr ret
      | ProviderObject obj \<Rightarrow>
          if truthy (getProp obj ''id'') then
            if \<not> truthy (getProp obj ''id'') then
              Inl (InvariantFailed
                ''You must specify an `id` on the Provider when you override options.prompts'')
            else
              let ret1 = setProp ret (jsToString (getProp obj ''id''))
                           (orElse (getProp obj ''prompts'') allPrompts) in
              if truthy (getProp obj ''label'')
              then Inr (setProp ret1 (jsToString (getProp obj ''label''))
                          (orElse (getProp obj ''prompts'') allPrompts))
              else Inr ret1
          else
            let originalId = (case map fst obj of [] \<Rightarrow> JUndefined | k # ks \<Rightarrow> JString k);
                providerObject = getProp obj (jsToString originalId) in
            case readProp providerObject ''id'' of
              Inl e \<Rightarrow> Inl e
            | Inr innerId \<Rightarrow>
                let id = orElse innerId originalId in
                case readProp (getProp obj (jsToString originalId)) ''prompts'' of
                  Inl e \<Rightarrow> Inl e
                | Inr innerPrompts \<Rightarrow>
                    Inr (setProp ret (jsToString id) (orElse innerPrompts allPrompts)))"

fun providersLoop ::
  "jsval \<Rightarrow> provider list \<Rightarrow> provider_prompt_map \<Rightarrow> error + provider_prompt_map" where
  "providersLoop allPrompts [] ret = Inr ret"
| "providersLoop allPrompts (provider # rest) ret =
     (case providerEntry allPrompts ret provider of
        Inl e \<Rightarrow> Inl e
      | Inr ret' \<Rightarrow> providersLoop allPrompts rest ret')"

text \<open>
  Lines 32 to 79. The object literals of lines 48 and 52 define their one key as an own
  property, whatever the key is.
\<close>

definition readProviderPromptMap :: "config \<Rightarrow> prompt list \<Rightarrow> error + provider_prompt_map" where
  "readProviderPromptMap config parsedPrompts =
     (let ret = \<lparr>own = Map.empty, proto = None\<rparr> in
      case providers config of
        None \<Rightarrow> Inr ret
      | Some ps \<Rightarrow>
          if ps = ProvidersString [] then Inr ret
          else
            let allPrompts = JArray (map labelValue parsedPrompts) in
            case ps of
              ProvidersString s \<Rightarrow> Inr \<lparr>own = Map.empty(s \<mapsto> allPrompts), proto = None\<rparr>
            | ProvidersFunction f \<Rightarrow>
                Inr \<lparr>own = Map.empty(''Custom function'' \<mapsto> allPrompts), proto = None\<rparr>
            | ProvidersList entries \<Rightarrow> providersLoop allPrompts entries ret)"

subsection \<open>A sample environment\<close>

text \<open>
  A small environment on which the functions are evaluated: a directory \<^verbatim>\<open>prompts\<close>
  holding \<^verbatim>\<open>a.txt\<close>, \<^verbatim>\<open>b.txt\<close> and \<^verbatim>\<open>notes.xyz\<close>. A string is taken for a file
  reference when it holds a slash or a star, and for a pattern when it holds a star; the
  extension is the last dot-segment of the last path segment; the text handler returns
  one prompt per file and every other handler throws an error that names the handler.
\<close>

definition sampleExtension :: "string \<Rightarrow> string option" where
  "sampleExtension s =
     (let base = rev (takeWhile (\<lambda>c. c \<noteq> CHR ''/'') (rev s)) in
      if CHR ''.'' \<in> set base
      then Some (CHR ''.'' # rev (takeWhile (\<lambda>c. c \<noteq> CHR ''.'') (rev base)))
      else None)"

definition sampleParse :: "string \<Rightarrow> string \<Rightarrow> path_info" where
  "sampleParse basePath s =
     \<lparr>extension = sampleExtension s, functionName = None,
      isPathPattern = (CHR ''*'' \<in> set s), filePath = basePath @ s\<rparr>"

definition sampleGlob :: "string \<Rightarrow> string list" where
  "sampleGlob pattern =
     (if pattern = ''prompts/*.txt'' then [''prompts/a.txt'', ''prompts/b.txt'']
      else if pattern = ''prompts/*.xyz'' then [''prompts/notes.xyz'']
      else if pattern = ''prompts/*''
        then [''prompts/a.txt'', ''prompts/b.txt'', ''prompts/notes.xyz'']
      else [])"

definition sampleTxt :: "string \<Rightarrow> prompt_partial \<Rightarrow> error + prompt list" where
  "sampleTxt path p =
     Inr [\<lparr>raw = ''Text of '' @ path,
           label = Some (case label p of None \<Rightarrow> path | Some l \<Rightarrow> l), func = None\<rparr>]"

definition sampleNormalize :: "prompt_input \<Rightarrow> prompt_partial list" where
  "sampleNormalize i =
     (case i of
        InputString s \<Rightarrow> [\<lparr>raw = Some s, label = None, func = None\<rparr>]
      | InputList xs \<Rightarrow>
          map (\<lambda>x. case x of Inl s \<Rightarrow> \<lparr>raw = Some s, label = None, func = None\<rparr> | Inr p \<Rightarrow> p) xs
      | InputRecord kvs \<Rightarrow>
          map (\<lambda>(k, v). \<lparr>raw = Some v, label = Some k, func = None\<rparr>) kvs)"

definition sampleEnv :: env where
  "sampleEnv =
     \<lparr>maybeFilePath = (\<lambda>s. CHR ''/'' \<in> set s \<or> CHR ''*'' \<in> set s),
      parsePathOrGlob = sampleParse,
      globSync = sampleGlob,
      isJavascriptFile = (\<lambda>ext. ext \<in> set [''.js'', ''.cjs'', ''.mjs'', ''.ts'']),
      processJsonFile = (\<lambda>path p. Inl (HandlerError (''json: '' @ path))),
      processJsonlFile = (\<lambda>path p. Inl (HandlerError (''jsonl: '' @ path))),
      processJsFile = (\<lambda>path p f. Inl (HandlerError (''js: '' @ path))),
      processMarkdownFile = (\<lambda>path p. Inl (HandlerError (''markdown: '' @ path))),
      processPythonFile = (\<lambda>path p f. Inl (HandlerError (''python: '' @ path))),
      processTxtFile = sampleTxt,
      processYamlFile = (\<lambda>path p. Inl (HandlerError (''yaml: '' @ path))),
      normalizeInput = sampleNormalize,
      extractVariablesFromTemplates = (\<lambda>templates. []),
      getEnvBool = (\<lambda>name. False)\<rparr>"

declare processPrompt.simps [simp del]

section \<open>Properties of processPrompt\<close>

subsection \<open>The branches of processPrompt\<close>

lemma pushAll_map_Inr:
  "map f xs = map Inr rs \<Longrightarrow> pushAll f xs acc = Inr (acc @ concat rs)"
proof (induction xs arbitrary: rs acc)
  case Nil
  then show ?case by simp
next
  case (Cons x xs)
  then obtain r rs' where rs: "rs = r # rs'" "f x = Inr r" "map f xs = map Inr rs'"
    by (cases rs) auto
  with Cons.IH [of rs' "acc @ r"] show ?case by simp
qed

lemma processPrompt_glob:
  assumes "raw p = Some r" "func p = None" "maybeFilePath E r"
    "isPathPattern (parsePathOrGlob E b r)" "d > 0"
  shows "processPrompt E p b d =
    (case pushAll (\<lambda>g. processPrompt E \<lparr>raw = Some g, label = None, func = None\<rparr> b (d - 1))
            (globSync E (replaceBackslashes (filePath (parsePathOrGlob E b r)))) [] of
       Inl e \<Rightarrow> Inl e
     | Inr prompts \<Rightarrow> if prompts = [] then processString p else Inr prompts)"
  using assms
  by (simp add: processPrompt.simps [of E p b d] Let_def processString_def split: sum.splits)

lemma processPrompt_dispatch:
  assumes "raw p = Some r" "func p = None" "maybeFilePath E r"
    "\<not> (isPathPattern (parsePathOrGlob E b r) \<and> d > 0)"
  shows "processPrompt E p b d = dispatchByExtension E (parsePathOrGlob E b r) p"
  using assms by (auto simp add: processPrompt.simps [of E p b d] Let_def)


lemma dispatchByExtension_globSync:
  "dispatchByExtension (E\<lparr>globSync := g\<rparr>) info p = dispatchByExtension E info p"
  by (simp add: dispatchByExtension_def cong: option.case_cong)

lemmas sampleEnv_defs =
  sampleEnv_def sampleParse_def sampleGlob_def sampleExtension_def sampleTxt_def
  sampleNormalize_def replaceBackslashes_def processString_def dispatchByExtension_def

subsection \<open>Glob expansion\<close>

text \<open>
  C1: the code at the pattern \<^verbatim>\<open>prompts/*.xyz\<close> with budget 1 in the sample environment.
  The pattern matches the one file \<^verbatim>\<open>prompts/notes.xyz\<close>, whose resolution with budget 0
  is the empty list, so the concatenation of the individual resolutions is empty. The
  code returns the pattern itself as a literal prompt: the test of line 135 is on the
  accumulated prompts, where its comment and its log message speak of no file found.
\<close>

theorem processPrompt_glob_match_without_prompts:
  "globSync sampleEnv
     (replaceBackslashes (filePath (parsePathOrGlob sampleEnv [] ''prompts/*.xyz''))) =
     [''prompts/notes.xyz''] \<and>
   processPrompt sampleEnv \<lparr>raw = Some ''prompts/notes.xyz'', label = None, func = None\<rparr> [] 0 =
     Inr [] \<and>
   processPrompt sampleEnv \<lparr>raw = Some ''prompts/*.xyz'', label = None, func = None\<rparr> [] 1 =
     Inr [\<lparr>raw = ''prompts/*.xyz'', label = Some ''prompts/*.xyz'', func = None\<rparr>] \<and>
   processPrompt sampleEnv \<lparr>raw = Some ''prompts/*.xyz'', label = None, func = None\<rparr> [] 1 \<noteq>
     Inr (concat [[]])"
  by (simp add: processPrompt.simps sampleEnv_defs)

text \<open>
  Where every matched path resolves without an exception and at least one of them
  resolves to a prompt, the result is the concatenation of the results in match order.
\<close>

lemma processPrompt_glob_concat_nonempty:
  assumes "raw p = Some r" "func p = None" "maybeFilePath E r"
    "isPathPattern (parsePathOrGlob E b r)" "d > 0"
    "map (\<lambda>g. processPrompt E \<lparr>raw = Some g, label = None, func = None\<rparr> b (d - 1))
       (globSync E (replaceBackslashes (filePath (parsePathOrGlob E b r)))) = map Inr rs"
    "concat rs \<noteq> []"
  shows "processPrompt E p b d = Inr (concat rs)"
proof -
  have "pushAll (\<lambda>g. processPrompt E \<lparr>raw = Some g, label = None, func = None\<rparr> b (d - 1))
          (globSync E (replaceBackslashes (filePath (parsePathOrGlob E b r)))) [] = Inr (concat rs)"
    using pushAll_map_Inr [OF assms(6), of "[]"] by simp
  with assms(1-5,7) show ?thesis
    by (simp add: processPrompt_glob del: concat_eq_Nil_conv)
qed

text \<open>
  C2: for a partial without a function whose raw string is classified as a file reference
  and parsed as a pattern, with a positive budget, when the glob provider matches no path,
  \<^verbatim>\<open>processPrompt\<close> returns the literal-string processing of the original partial, which
  is exactly one prompt, and no exception.
\<close>

theorem processPrompt_glob_no_match:
  assumes "raw p = Some r" "func p = None" "maybeFilePath E r"
    "isPathPattern (parsePathOrGlob E b r)" "d > 0"
    "globSync E (replaceBackslashes (filePath (parsePathOrGlob E b r))) = []"
  shows "processPrompt E p b d = processString p \<and>
         processPrompt E p b d =
           Inr [\<lparr>raw = r, label = Some (case label p of None \<Rightarrow> r | Some l \<Rightarrow> l), func = None\<rparr>]"
  using assms by (simp add: processPrompt_glob processString_def)

theorem processPrompt_glob_no_match_witness:
  "processPrompt sampleEnv \<lparr>raw = Some ''prompts/*.md'', label = None, func = None\<rparr> [] 1 =
     Inr [\<lparr>raw = ''prompts/*.md'', label = Some ''prompts/*.md'', func = None\<rparr>]"
  using processPrompt_glob_no_match
    [of "\<lparr>raw = Some ''prompts/*.md'', label = None, func = None\<rparr>" "''prompts/*.md''"
        sampleEnv "[]" 1]
  by (simp add: sampleEnv_defs)

text \<open>
  C9: when a pattern is expanded, the loop resolves the fresh partial
  \<open>\<lparr>raw = Some g, label = None, func = None\<rparr>\<close> for each matched path \<open>g\<close>; unless the loop
  produces no prompt at all, its outcome is the outcome of \<^verbatim>\<open>processPrompt\<close> whatever
  the label \<open>l\<close> of the original partial is, so the label does not reach the prompts
  of the matched files.
\<close>

theorem processPrompt_glob_fresh_partial:
  assumes "raw p = Some r" "func p = None" "maybeFilePath E r"
    "isPathPattern (parsePathOrGlob E b r)" "d > 0"
    "pushAll (\<lambda>g. processPrompt E \<lparr>raw = Some g, label = None, func = None\<rparr> b (d - 1))
       (globSync E (replaceBackslashes (filePath (parsePathOrGlob E b r)))) [] \<noteq> Inr []"
  shows "processPrompt E (p\<lparr>label := l\<rparr>) b d =
         pushAll (\<lambda>g. processPrompt E \<lparr>raw = Some g, label = None, func = None\<rparr> b (d - 1))
           (globSync E (replaceBackslashes (filePath (parsePathOrGlob E b r)))) []"
proof -
  have "raw (p\<lparr>label := l\<rparr>) = Some r" "func (p\<lparr>label := l\<rparr>) = None"
    using assms(1,2) by simp_all
  from processPrompt_glob [OF this assms(3-5)] assms(6)
  show ?thesis by (simp split: sum.splits)
qed

theorem processPrompt_glob_fresh_partial_witness:
  "processPrompt sampleEnv
     (\<lparr>raw = Some ''prompts/*.txt'', label = None, func = None\<rparr>\<lparr>label := Some ''greeting''\<rparr>) [] 1 =
     Inr [\<lparr>raw = ''Text of prompts/a.txt'', label = Some ''prompts/a.txt'', func = None\<rparr>,
          \<lparr>raw = ''Text of prompts/b.txt'', label = Some ''prompts/b.txt'', func = None\<rparr>]"
proof -
  have "pushAll
      (\<lambda>g. processPrompt sampleEnv \<lparr>raw = Some g, label = None, func = None\<rparr> [] (1 - 1))
      (globSync sampleEnv
        (replaceBackslashes (filePath (parsePathOrGlob sampleEnv [] ''prompts/*.txt'')))) [] =
    Inr [\<lparr>raw = ''Text of prompts/a.txt'', label = Some ''prompts/a.txt'', func = None\<rparr>,
         \<lparr>raw = ''Text of prompts/b.txt'', label = Some ''prompts/b.txt'', func = None\<rparr>]"
    by (simp add: processPrompt.simps [of _ _ _ 0] sampleEnv_defs)
  then show ?thesis
    using processPrompt_glob_fresh_partial
      [of "\<lparr>raw = Some ''prompts/*.txt'', label = None, func = None\<rparr>" "''prompts/*.txt''"
          sampleEnv "[]" 1 "Some ''greeting''"]
    by (simp add: sampleEnv_def sampleParse_def)
qed

subsection \<open>Budget exhaustion and dispatch\<close>

text \<open>
  C4: for a partial without a function whose raw string is classified as a file reference
  and parsed as a pattern, \<^verbatim>\<open>processPrompt\<close> with budget 0 hands the path of the pattern
  itself to the handler of its extension (the JSON handler for \<^verbatim>\<open>.json\<close>, then
  \<^verbatim>\<open>.jsonl\<close>, the JavaScript extensions, \<^verbatim>\<open>.md\<close>, \<^verbatim>\<open>.py\<close>, \<^verbatim>\<open>.txt\<close>, \<^verbatim>\<open>.yml\<close> and
  \<^verbatim>\<open>.yaml\<close>, in that order, and the empty list otherwise), and its outcome is the same
  whatever the glob provider \<open>g\<close> would list: the pattern is not expanded.
\<close>

theorem processPrompt_budget_exhausted:
  assumes "raw p = Some r" "func p = None" "maybeFilePath E r"
    "isPathPattern (parsePathOrGlob E b r)"
  shows "processPrompt E p b 0 =
          (let ext = extension (parsePathOrGlob E b r);
               path = filePath (parsePathOrGlob E b r);
               fname = functionName (parsePathOrGlob E b r) in
           if ext = Some ''.json'' then processJsonFile E path p
           else if ext = Some ''.jsonl'' then processJsonlFile E path p
           else if (\<exists>e. ext = Some e \<and> e \<noteq> [] \<and> isJavascriptFile E e)
             then processJsFile E path p fname
           else if ext = Some ''.md'' then processMarkdownFile E path p
           else if ext = Some ''.py'' then processPythonFile E path p fname
           else if ext = Some ''.txt'' then processTxtFile E path p
           else if ext = Some ''.yml'' \<or> ext = Some ''.yaml'' then processYamlFile E path p
           else Inr []) \<and>
         processPrompt (E\<lparr>globSync := g\<rparr>) p b 0 = processPrompt E p b 0"
proof -
  have d: "processPrompt E p b 0 = dispatchByExtension E (parsePathOrGlob E b r) p"
    using assms by (simp add: processPrompt_dispatch)
  have "processPrompt (E\<lparr>globSync := g\<rparr>) p b 0 =
      dispatchByExtension (E\<lparr>globSync := g\<rparr>) (parsePathOrGlob (E\<lparr>globSync := g\<rparr>) b r) p"
    using assms by (intro processPrompt_dispatch) simp_all
  with d have same: "processPrompt (E\<lparr>globSync := g\<rparr>) p b 0 = processPrompt E p b 0"
    by (simp add: dispatchByExtension_globSync)
  have "dispatchByExtension E (parsePathOrGlob E b r) p =
          (let ext = extension (parsePathOrGlob E b r);
               path = filePath (parsePathOrGlob E b r);
               fname = functionName (parsePathOrGlob E b r) in
           if ext = Some ''.json'' then processJsonFile E path p
           else if ext = Some ''.jsonl'' then processJsonlFile E path p
           else if (\<exists>e. ext = Some e \<and> e \<noteq> [] \<and> isJavascriptFile E e)
             then processJsFile E path p fname
           else if ext = Some ''.md'' then processMarkdownFile E path p
           else if ext = Some ''.py'' then processPythonFile E path p fname
           else if ext = Some ''.txt'' then processTxtFile E path p
           else if ext = Some ''.yml'' \<or> ext = Some ''.yaml'' then processYamlFile E path p
           else Inr [])"
    by (cases "extension (parsePathOrGlob E b r)") (auto simp add: dispatchByExtension_def Let_def)
  with d same show ?thesis by simp
qed

theorem processPrompt_budget_exhausted_witness:
  "processPrompt sampleEnv \<lparr>raw = Some ''prompts/*.txt'', label = Some ''L'', func = None\<rparr> [] 0 =
     Inr [\<lparr>raw = ''Text of prompts/*.txt'', label = Some ''L'', func = None\<rparr>] \<and>
   processPrompt sampleEnv \<lparr>raw = Some ''prompts/*.json'', label = None, func = None\<rparr> [] 0 =
     Inl (HandlerError ''json: prompts/*.json'') \<and>
   processPrompt sampleEnv \<lparr>raw = Some ''prompts/*.ts'', label = None, func = None\<rparr> [] 0 =
     Inl (HandlerError ''js: prompts/*.ts'') \<and>
   processPrompt (sampleEnv\<lparr>globSync := (\<lambda>pattern. [''prompts/a.txt''])\<rparr>)
     \<lparr>raw = Some ''prompts/*.txt'', label = Some ''L'', func = None\<rparr> [] 0 =
   processPrompt sampleEnv \<lparr>raw = Some ''prompts/*.txt'', label = Some ''L'', func = None\<rparr> [] 0"
  using processPrompt_budget_exhausted
    [of "\<lparr>raw = Some ''prompts/*.txt'', label = Some ''L'', func = None\<rparr>" "''prompts/*.txt''"
        sampleEnv "[]" "\<lambda>pattern. [''prompts/a.txt'']"]
    processPrompt_budget_exhausted
    [of "\<lparr>raw = Some ''prompts/*.json'', label = None, func = None\<rparr>" "''prompts/*.json''"
        sampleEnv "[]"]
    processPrompt_budget_exhausted
    [of "\<lparr>raw = Some ''prompts/*.ts'', label = None, func = None\<rparr>" "''prompts/*.ts''"
        sampleEnv "[]"]
  by (simp add: sampleEnv_def sampleParse_def sampleExtension_def sampleTxt_def)

text \<open>
  C7, as stated, fails. In the sample environment \<^verbatim>\<open>prompts/*\<close> is classified as a file
  reference and has no extension, and \<^verbatim>\<open>processPrompt\<close> with budget 1 expands it
  (line 119 comes before the dispatch) and returns the prompts of the matched files.
\<close>

theorem processPrompt_unrecognized_extension_counterexample:
  "maybeFilePath sampleEnv ''prompts/*'' \<and>
   extension (parsePathOrGlob sampleEnv [] ''prompts/*'') = None \<and>
   processPrompt sampleEnv \<lparr>raw = Some ''prompts/*'', label = None, func = None\<rparr> [] 1 =
     Inr [\<lparr>raw = ''Text of prompts/a.txt'', label = Some ''prompts/a.txt'', func = None\<rparr>,
          \<lparr>raw = ''Text of prompts/b.txt'', label = Some ''prompts/b.txt'', func = None\<rparr>] \<and>
   processPrompt sampleEnv \<lparr>raw = Some ''prompts/*'', label = None, func = None\<rparr> [] 1 \<noteq> Inr []"
  by (simp add: processPrompt.simps sampleEnv_defs)

text \<open>
  C7, amended: for a partial without a function whose raw string is classified as a file
  reference that is not a pattern evaluated with a positive budget (a concrete path, or a
  pattern with the budget exhausted), when the extension is absent, empty, or none of
  the seven extensions of the dispatch and not a JavaScript extension,
  \<^verbatim>\<open>processPrompt\<close> returns the empty list and no exception.
\<close>

theorem processPrompt_unrecognized_extension:
  assumes "raw p = Some r" "func p = None" "maybeFilePath E r"
    "\<not> (isPathPattern (parsePathOrGlob E b r) \<and> d > 0)"
    "case extension (parsePathOrGlob E b r) of
       None \<Rightarrow> True
     | Some ext \<Rightarrow>
         ext \<notin> set [''.json'', ''.jsonl'', ''.md'', ''.py'', ''.txt'', ''.yml'', ''.yaml''] \<and>
         (ext = [] \<or> \<not> isJavascriptFile E ext)"
  shows "processPrompt E p b d = Inr []"
  using assms
  by (auto simp add: processPrompt_dispatch dispatchByExtension_def split: option.splits)

theorem processPrompt_unrecognized_extension_witness:
  "processPrompt sampleEnv \<lparr>raw = Some ''prompts/notes.xyz'', label = None, func = None\<rparr> [] 1 =
     Inr [] \<and>
   processPrompt sampleEnv \<lparr>raw = Some ''prompts/README'', label = None, func = None\<rparr> [] 1 =
     Inr []"
  using processPrompt_unrecognized_extension
    [of "\<lparr>raw = Some ''prompts/notes.xyz'', label = None, func = None\<rparr>" "''prompts/notes.xyz''"
        sampleEnv "[]" 1]
    processPrompt_unrecognized_extension
    [of "\<lparr>raw = Some ''prompts/README'', label = None, func = None\<rparr>" "''prompts/README''"
        sampleEnv "[]" 1]
  by (simp add: sampleEnv_defs)

subsection \<open>Function prompts\<close>

text \<open>
  C8: for a partial whose raw is a string and whose function field is populated,
  \<^verbatim>\<open>processPrompt\<close> returns the one-element list holding the partial with its three
  fields as they are, whatever the environment, the base path and the budget.
\<close>

theorem processPrompt_function_terminal:
  assumes "raw p = Some r" "func p = Some f"
  shows "processPrompt E p b d = Inr [\<lparr>raw = r, label = label p, func = Some f\<rparr>]"
  using assms by (simp add: processPrompt.simps [of E p b d])

theorem processPrompt_function_terminal_witness:
  "processPrompt sampleEnv
     \<lparr>raw = Some ''prompts/*.txt'', label = None, func = Some (Callable ''myPrompt'')\<rparr> [] 1 =
   Inr [\<lparr>raw = ''prompts/*.txt'', label = None, func = Some (Callable ''myPrompt'')\<rparr>]"
  using processPrompt_function_terminal
    [of "\<lparr>raw = Some ''prompts/*.txt'', label = None, func = Some (Callable ''myPrompt'')\<rparr>"
        "''prompts/*.txt''" "Callable ''myPrompt''" sampleEnv "[]" 1]
  by simp


section \<open>Properties of readPrompts\<close>









section \<open>Properties of readProviderPromptMap\<close>

lemma getProp_first: "getProp ((k, v) # rest) k = v"
  by (simp add: getProp_def)

lemma setProp_own_same: "k \<noteq> ''__proto__'' \<Longrightarrow> own (setProp R k v) k = Some v"
  by (simp add: setProp_def)

lemma setProp_own_other: "k' \<noteq> k \<Longrightarrow> own (setProp R k v) k' = own R k'"
  by (simp add: setProp_def split: jsval.splits)

lemma providerEntry_with_id:
  assumes "truthy (getProp obj ''id'')"
  shows "providerEntry allPrompts ret (ProviderObject obj) =
    Inr (if truthy (getProp obj ''label'')
         then setProp
                (setProp ret (jsToString (getProp obj ''id''))
                   (orElse (getProp obj ''prompts'') allPrompts))
                (jsToString (getProp obj ''label'')) (orElse (getProp obj ''prompts'') allPrompts)
         else setProp ret (jsToString (getProp obj ''id''))
                (orElse (getProp obj ''prompts'') allPrompts))"
  using assms by (simp add: providerEntry_def Let_def)

lemma providerEntry_without_id:
  assumes "\<not> truthy (getProp ((k, v) # rest) ''id'')"
  shows "providerEntry allPrompts ret (ProviderObject ((k, v) # rest)) =
    (case readProp v ''id'' of
       Inl e \<Rightarrow> Inl e
     | Inr innerId \<Rightarrow>
         (case readProp v ''prompts'' of
            Inl e \<Rightarrow> Inl e
          | Inr innerPrompts \<Rightarrow>
              Inr (setProp ret (jsToString (orElse innerId (JString k)))
                     (orElse innerPrompts allPrompts))))"
  using assms by (simp add: providerEntry_def getProp_first Let_def split: sum.splits)

lemma providersLoop_append:
  "providersLoop A (pre @ post) R =
     (case providersLoop A pre R of Inl e \<Rightarrow> Inl e | Inr R1 \<Rightarrow> providersLoop A post R1)"
  by (induction pre arbitrary: R) (simp_all split: sum.splits)

lemma providersLoop_replace:
  assumes "\<And>R. providerEntry A R e1 = providerEntry A R e2"
  shows "providersLoop A (pre @ e1 # post) R = providersLoop A (pre @ e2 # post) R"
  by (induction pre arbitrary: R) (simp_all add: assms split: sum.splits)

text \<open>Entries that leave a key as it is leave it so through the rest of the loop.\<close>

lemma providersLoop_frame:
  assumes "\<forall>e\<in>set post. \<forall>R R'. providerEntry A R e = Inr R' \<longrightarrow> own R' x = own R x"
    and "providersLoop A post R = Inr m"
  shows "own m x = own R x"
  using assms
proof (induction post arbitrary: R)
  case Nil
  then show ?case by simp
next
  case (Cons e post)
  from Cons.prems(2) obtain R1 where e: "providerEntry A R e = Inr R1"
    and rest: "providersLoop A post R1 = Inr m"
    by (auto split: sum.splits)
  from Cons.prems(1) e have "own R1 x = own R x" by auto
  moreover from Cons.IH [OF _ rest] Cons.prems(1) have "own m x = own R1 x" by auto
  ultimately show ?case by simp
qed

lemma providersLoop_entry_key:
  assumes "providersLoop A (pre @ e # post) R0 = Inr m"
    and "\<And>R R'. providerEntry A R e = Inr R' \<Longrightarrow> own R' x = Some v"
    and "\<forall>e'\<in>set post. \<forall>R R'. providerEntry A R e' = Inr R' \<longrightarrow> own R' x = own R x"
  shows "own m x = Some v"
proof -
  from assms(1) obtain R1 where "providersLoop A (e # post) R1 = Inr m"
    by (auto simp add: providersLoop_append split: sum.splits)
  then obtain R2 where e: "providerEntry A R1 e = Inr R2"
    and rest: "providersLoop A post R2 = Inr m"
    by (auto split: sum.splits)
  from providersLoop_frame [OF assms(3) rest] assms(2) [OF e] show ?thesis by simp
qed

lemma readProviderPromptMap_list:
  "readProviderPromptMap \<lparr>providers = Some (ProvidersList entries)\<rparr> ps =
   providersLoop (JArray (map labelValue ps)) entries \<lparr>own = Map.empty, proto = None\<rparr>"
  by (simp add: readProviderPromptMap_def)

text \<open>
  The invariant of line 60 is evaluated only where line 58 has found the \<^verbatim>\<open>id\<close> truthy:
  no input makes it fail.
\<close>

lemma providerEntry_invariant_unreachable:
  "providerEntry allPrompts ret provider \<noteq> Inl (InvariantFailed m)"
proof (cases provider)
  case (ProviderObject obj)
  show ?thesis
  proof (cases "truthy (getProp obj ''id'')")
    case True
    with ProviderObject show ?thesis by (simp add: providerEntry_def Let_def)
  next
    case False
    have "readProp v k \<noteq> Inl (InvariantFailed m)" for v k by (cases v) simp_all
    with False ProviderObject show ?thesis
      by (auto simp add: providerEntry_def Let_def split: sum.splits)
  qed
qed (simp_all add: providerEntry_def)

lemma providersLoop_invariant_unreachable:
  "providersLoop allPrompts entries ret \<noteq> Inl (InvariantFailed m)"
  by (induction entries arbitrary: ret)
     (auto simp add: providerEntry_invariant_unreachable split: sum.splits)

lemma readProviderPromptMap_invariant_unreachable:
  "readProviderPromptMap config parsedPrompts \<noteq> Inl (InvariantFailed m)"
  by (auto simp add: readProviderPromptMap_def Let_def providersLoop_invariant_unreachable
      split: option.splits providers_value.splits)

lemmas provider_defs =
  readProviderPromptMap_def providerEntry_def setProp_def getProp_def orElse_def labelValue_def
  Let_def

text \<open>
  C5: the code at the input \<^verbatim>\<open>{providers: [{prompts: ['p1']}]}\<close> with the resolved labels
  \<^verbatim>\<open>p1\<close> and \<^verbatim>\<open>p2\<close>. The entry overrides the prompts and declares no \<^verbatim>\<open>id\<close>; the
  code throws nothing, reads the entry as a keyed mapping whose first key is
  \<^verbatim>\<open>prompts\<close>, and maps that key to all the labels.
\<close>

theorem readProviderPromptMap_prompts_without_id:
  "readProviderPromptMap
     \<lparr>providers = Some (ProvidersList [ProviderObject [(''prompts'', JArray [JString ''p1''])]])\<rparr>
     [\<lparr>raw = ''a'', label = Some ''p1'', func = None\<rparr>,
      \<lparr>raw = ''b'', label = Some ''p2'', func = None\<rparr>] =
   Inr \<lparr>own = Map.empty(''prompts'' \<mapsto> JArray [JString ''p1'', JString ''p2'']), proto = None\<rparr>"
  by (simp add: provider_defs)

text \<open>
  C6, as stated, fails. With the labels \<^verbatim>\<open>p1\<close> and \<^verbatim>\<open>p2\<close>, the list
  \<^verbatim>\<open>[{id: 'x', prompts: ['p1']}, {id: 'y', label: 'x'}]\<close> maps \<^verbatim>\<open>x\<close> to all the labels:
  the second entry assigns its label \<^verbatim>\<open>x\<close> after the first has assigned its id. And the
  list \<^verbatim>\<open>[{id: '__proto__', prompts: ['p1']}]\<close> maps nothing: the assignment of line 64
  replaces the prototype of the result and adds no key.
\<close>

theorem readProviderPromptMap_cases_counterexample:
  "(case readProviderPromptMap
      \<lparr>providers = Some (ProvidersList
         [ProviderObject [(''id'', JString ''x''), (''prompts'', JArray [JString ''p1''])],
          ProviderObject [(''id'', JString ''y''), (''label'', JString ''x'')]])\<rparr>
      [\<lparr>raw = ''a'', label = Some ''p1'', func = None\<rparr>,
       \<lparr>raw = ''b'', label = Some ''p2'', func = None\<rparr>] of
      Inl e \<Rightarrow> None
    | Inr m \<Rightarrow> own m ''x'') = Some (JArray [JString ''p1'', JString ''p2'']) \<and>
   readProviderPromptMap
     \<lparr>providers = Some (ProvidersList
        [ProviderObject [(''id'', JString ''__proto__''), (''prompts'', JArray [JString ''p1''])]])\<rparr>
     [\<lparr>raw = ''a'', label = Some ''p1'', func = None\<rparr>,
      \<lparr>raw = ''b'', label = Some ''p2'', func = None\<rparr>] =
   Inr \<lparr>own = Map.empty, proto = Some (JArray [JString ''p1''])\<rparr>"
  by (simp add: provider_defs)

text \<open>
  C6, amended: \<^verbatim>\<open>readProviderPromptMap\<close> returns the empty mapping when \<^verbatim>\<open>providers\<close> is
  absent or the empty string (both are falsy at line 38); maps a non-empty string to the
  labels of all the prompts; maps \<^verbatim>\<open>Custom function\<close> to all the labels when
  \<^verbatim>\<open>providers\<close> is a callable; and for a list that holds, at any place, an object whose
  \<^verbatim>\<open>id\<close> is a non-empty string \<open>x\<close> other than \<^verbatim>\<open>__proto__\<close> and whose \<^verbatim>\<open>prompts\<close> is the
  list \<open>override\<close>, when no entry throws and no later entry assigns the key \<open>x\<close>, the
  result maps \<open>x\<close> to \<open>override\<close> whatever the prompts \<open>ps\<close> are.
\<close>

theorem readProviderPromptMap_cases:
  "readProviderPromptMap \<lparr>providers = None\<rparr> ps = Inr \<lparr>own = Map.empty, proto = None\<rparr> \<and>
   readProviderPromptMap \<lparr>providers = Some (ProvidersString [])\<rparr> ps =
     Inr \<lparr>own = Map.empty, proto = None\<rparr> \<and>
   (s \<noteq> [] \<longrightarrow>
      readProviderPromptMap \<lparr>providers = Some (ProvidersString s)\<rparr> ps =
        Inr \<lparr>own = Map.empty(s \<mapsto> JArray (map labelValue ps)), proto = None\<rparr>) \<and>
   readProviderPromptMap \<lparr>providers = Some (ProvidersFunction f)\<rparr> ps =
     Inr \<lparr>own = Map.empty(''Custom function'' \<mapsto> JArray (map labelValue ps)), proto = None\<rparr> \<and>
   (x \<noteq> [] \<and> x \<noteq> ''__proto__'' \<and>
    getProp obj ''id'' = JString x \<and> getProp obj ''prompts'' = JArray override \<and>
    (\<forall>e\<in>set post. \<forall>R R'.
       providerEntry (JArray (map labelValue ps)) R e = Inr R' \<longrightarrow> own R' x = own R x) \<and>
    readProviderPromptMap
      \<lparr>providers = Some (ProvidersList (pre @ ProviderObject obj # post))\<rparr> ps = Inr m
    \<longrightarrow> own m x = Some (JArray override))"
proof -
  have list: "own m x = Some (JArray override)"
    if h: "x \<noteq> []" "x \<noteq> ''__proto__''" "getProp obj ''id'' = JString x"
      "getProp obj ''prompts'' = JArray override"
      "\<forall>e\<in>set post. \<forall>R R'.
         providerEntry (JArray (map labelValue ps)) R e = Inr R' \<longrightarrow> own R' x = own R x"
      "readProviderPromptMap
         \<lparr>providers = Some (ProvidersList (pre @ ProviderObject obj # post))\<rparr> ps = Inr m"
  proof -
    have t: "truthy (getProp obj ''id'')" using h(1,3) by simp
    have entry: "own R' x = Some (JArray override)"
      if "providerEntry (JArray (map labelValue ps)) R (ProviderObject obj) = Inr R'" for R R'
      using that h(1-4) unfolding providerEntry_with_id [OF t]
      by (auto simp add: orElse_def setProp_def split: if_splits jsval.splits)
    from h(6) have "providersLoop (JArray (map labelValue ps)) (pre @ ProviderObject obj # post)
        \<lparr>own = Map.empty, proto = None\<rparr> = Inr m"
      by (simp add: readProviderPromptMap_list)
    from providersLoop_entry_key [OF this entry h(5)] show ?thesis .
  qed
  have simple:
    "readProviderPromptMap \<lparr>providers = None\<rparr> ps = Inr \<lparr>own = Map.empty, proto = None\<rparr>"
    "readProviderPromptMap \<lparr>providers = Some (ProvidersString [])\<rparr> ps =
       Inr \<lparr>own = Map.empty, proto = None\<rparr>"
    "s \<noteq> [] \<Longrightarrow> readProviderPromptMap \<lparr>providers = Some (ProvidersString s)\<rparr> ps =
        Inr \<lparr>own = Map.empty(s \<mapsto> JArray (map labelValue ps)), proto = None\<rparr>"
    "readProviderPromptMap \<lparr>providers = Some (ProvidersFunction f)\<rparr> ps =
       Inr \<lparr>own = Map.empty(''Custom function'' \<mapsto> JArray (map labelValue ps)), proto = None\<rparr>"
    by (simp_all add: readProviderPromptMap_def)
  from simple list show ?thesis by blast
qed

theorem readProviderPromptMap_cases_witness:
  "readProviderPromptMap \<lparr>providers = Some (ProvidersString ''providerA'')\<rparr>
     [\<lparr>raw = ''a'', label = Some ''p1'', func = None\<rparr>,
      \<lparr>raw = ''b'', label = Some ''p2'', func = None\<rparr>] =
     Inr \<lparr>own = Map.empty(''providerA'' \<mapsto> JArray [JString ''p1'', JString ''p2'']),
          proto = None\<rparr> \<and>
   (case readProviderPromptMap
      \<lparr>providers = Some (ProvidersList
         [ProviderObject [(''id'', JString ''y'')],
          ProviderObject [(''id'', JString ''x''), (''prompts'', JArray [JString ''p1''])],
          ProviderId ''z'',
          ProviderObject [(''id'', JString ''w''), (''label'', JString ''display'')]])\<rparr>
      [\<lparr>raw = ''a'', label = Some ''p1'', func = None\<rparr>,
       \<lparr>raw = ''b'', label = Some ''p2'', func = None\<rparr>] of
      Inl e \<Rightarrow> None
    | Inr m \<Rightarrow> own m ''x'') = Some (JArray [JString ''p1''])"
proof -
  let ?ps = "[\<lparr>raw = ''a'', label = Some ''p1'', func = None\<rparr>,
              \<lparr>raw = ''b'', label = Some ''p2'', func = None\<rparr>]"
  let ?obj = "[(''id'', JString ''x''), (''prompts'', JArray [JString ''p1''])]"
  let ?pre = "[ProviderObject [(''id'', JString ''y'')]]"
  let ?post = "[ProviderId ''z'',
                ProviderObject [(''id'', JString ''w''), (''label'', JString ''display'')]]"
  obtain m where ev: "readProviderPromptMap
      \<lparr>providers = Some (ProvidersList (?pre @ ProviderObject ?obj # ?post))\<rparr> ?ps = Inr m"
    by (simp add: provider_defs)
  have frame: "\<forall>e\<in>set ?post. \<forall>R R'.
      providerEntry (JArray (map labelValue ?ps)) R e = Inr R' \<longrightarrow> own R' ''x'' = own R ''x''"
    by (simp add: provider_defs)
  have "own m ''x'' = Some (JArray [JString ''p1''])"
    using readProviderPromptMap_cases
      [of ?ps "''providerA''" _ "''x''" ?obj "[JString ''p1'']" ?post ?pre m] ev frame
    by (simp add: getProp_def)
  moreover have "readProviderPromptMap \<lparr>providers = Some (ProvidersString ''providerA'')\<rparr> ?ps =
     Inr \<lparr>own = Map.empty(''providerA'' \<mapsto> JArray [JString ''p1'', JString ''p2'']),
          proto = None\<rparr>"
    using readProviderPromptMap_cases [of ?ps "''providerA''"] by (simp add: labelValue_def)
  ultimately show ?thesis using ev by simp
qed

text \<open>
  C10, as stated, fails. With the labels \<^verbatim>\<open>p1\<close> and \<^verbatim>\<open>p2\<close>, the entry
  \<^verbatim>\<open>{'openai:gpt-4': {id: ''}}\<close> has an inner \<^verbatim>\<open>id\<close>, the empty string, and the result uses
  the first key, since line 72 tests the truthiness of the \<^verbatim>\<open>id\<close>. And the entry
  \<^verbatim>\<open>{'__proto__': {prompts: ['p1']}}\<close> puts no identifier in the result: the assignment of
  line 73 replaces the prototype of the result and adds no key.
\<close>

theorem readProviderPromptMap_keyed_mapping_counterexample:
  "readProviderPromptMap
     \<lparr>providers = Some (ProvidersList
        [ProviderObject [(''openai:gpt-4'', JObject [(''id'', JString [])])]])\<rparr>
     [\<lparr>raw = ''a'', label = Some ''p1'', func = None\<rparr>,
      \<lparr>raw = ''b'', label = Some ''p2'', func = None\<rparr>] =
   Inr \<lparr>own = Map.empty(''openai:gpt-4'' \<mapsto> JArray [JString ''p1'', JString ''p2'']),
        proto = None\<rparr> \<and>
   readProviderPromptMap
     \<lparr>providers = Some (ProvidersList
        [ProviderObject [(''__proto__'', JObject [(''prompts'', JArray [JString ''p1''])])]])\<rparr>
     [\<lparr>raw = ''a'', label = Some ''p1'', func = None\<rparr>,
      \<lparr>raw = ''b'', label = Some ''p2'', func = None\<rparr>] =
   Inr \<lparr>own = Map.empty, proto = Some (JArray [JString ''p1''])\<rparr>"
  by (simp add: provider_defs)

text \<open>
  C10, amended: a list entry that is an object without a truthy \<^verbatim>\<open>id\<close> is read through
  its first key \<open>k\<close> and that key's value \<open>v\<close> only: replacing the entry \<open>(k, v) # rest\<close> by
  \<open>[(k, v)]\<close> anywhere in the list changes nothing. When \<open>v\<close> is an object, the identifier
  is the \<^verbatim>\<open>id\<close> of \<open>v\<close> when that is truthy and the key \<open>k\<close> otherwise; for an identifier
  other than \<^verbatim>\<open>__proto__\<close>, when no entry throws and no later entry assigns the same
  key, the result maps the identifier to the \<^verbatim>\<open>prompts\<close> of \<open>v\<close>, or to all the
  labels when \<open>v\<close> has no truthy \<^verbatim>\<open>prompts\<close>.
\<close>

theorem readProviderPromptMap_keyed_mapping:
  assumes "\<not> truthy (getProp ((k, v) # rest) ''id'')"
  shows "readProviderPromptMap
           \<lparr>providers = Some (ProvidersList (pre @ ProviderObject ((k, v) # rest) # post))\<rparr> ps =
         readProviderPromptMap
           \<lparr>providers = Some (ProvidersList (pre @ ProviderObject [(k, v)] # post))\<rparr> ps \<and>
         (v = JObject inner \<and>
          ident = (if truthy (getProp inner ''id'') then jsToString (getProp inner ''id'') else k) \<and>
          ident \<noteq> ''__proto__'' \<and>
          (\<forall>e\<in>set post. \<forall>R R'.
             providerEntry (JArray (map labelValue ps)) R e = Inr R' \<longrightarrow>
             own R' ident = own R ident) \<and>
          readProviderPromptMap
            \<lparr>providers = Some (ProvidersList (pre @ ProviderObject ((k, v) # rest) # post))\<rparr> ps =
            Inr m
          \<longrightarrow> own m ident =
                Some (orElse (getProp inner ''prompts'') (JArray (map labelValue ps))))"
proof -
  have single: "\<not> truthy (getProp [(k, v)] ''id'')"
    using assms by (auto simp: getProp_def split: if_splits)
  have same: "providerEntry A R (ProviderObject ((k, v) # rest)) =
      providerEntry A R (ProviderObject [(k, v)])" for A R
    by (simp add: providerEntry_without_id [OF single] providerEntry_without_id [OF assms])
  have first:
    "readProviderPromptMap
       \<lparr>providers = Some (ProvidersList (pre @ ProviderObject ((k, v) # rest) # post))\<rparr> ps =
     readProviderPromptMap
       \<lparr>providers = Some (ProvidersList (pre @ ProviderObject [(k, v)] # post))\<rparr> ps"
    using providersLoop_replace [of _ "ProviderObject ((k, v) # rest)" "ProviderObject [(k, v)]"]
    by (simp add: readProviderPromptMap_list same)
  have second: "own m ident =
      Some (orElse (getProp inner ''prompts'') (JArray (map labelValue ps)))"
    if h: "v = JObject inner"
      "ident = (if truthy (getProp inner ''id'') then jsToString (getProp inner ''id'') else k)"
      "ident \<noteq> ''__proto__''"
      "\<forall>e\<in>set post. \<forall>R R'.
         providerEntry (JArray (map labelValue ps)) R e = Inr R' \<longrightarrow> own R' ident = own R ident"
      "readProviderPromptMap
         \<lparr>providers = Some (ProvidersList (pre @ ProviderObject ((k, v) # rest) # post))\<rparr> ps =
       Inr m"
  proof -
    have step: "providerEntry A R (ProviderObject ((k, v) # rest)) =
        Inr (setProp R ident (orElse (getProp inner ''prompts'') A))" for A R
      unfolding providerEntry_without_id [OF assms] using h(1,2) by (simp add: orElse_def)
    have entry: "own R' ident =
        Some (orElse (getProp inner ''prompts'') (JArray (map labelValue ps)))"
      if "providerEntry (JArray (map labelValue ps)) R (ProviderObject ((k, v) # rest)) = Inr R'"
      for R R'
      using that h(3) unfolding step by (auto simp add: setProp_own_same)
    from h(5) have "providersLoop (JArray (map labelValue ps))
        (pre @ ProviderObject ((k, v) # rest) # post) \<lparr>own = Map.empty, proto = None\<rparr> = Inr m"
      by (simp add: readProviderPromptMap_list)
    from providersLoop_entry_key [OF this entry h(4)] show ?thesis .
  qed
  from first second show ?thesis by blast
qed

theorem readProviderPromptMap_keyed_mapping_witness:
  "(case readProviderPromptMap
      \<lparr>providers = Some (ProvidersList
         [ProviderObject [(''id'', JString ''y'')],
          ProviderObject
            [(''openai:gpt-4'', JObject [(''prompts'', JArray [JString ''p1''])]),
             (''second'', JObject [(''id'', JString ''other'')])],
          ProviderObject [(''anthropic'', JObject [(''id'', JString ''custom'')])]])\<rparr>
      [\<lparr>raw = ''a'', label = Some ''p1'', func = None\<rparr>,
       \<lparr>raw = ''b'', label = Some ''p2'', func = None\<rparr>] of
      Inl e \<Rightarrow> None
    | Inr m \<Rightarrow> own m ''openai:gpt-4'') = Some (JArray [JString ''p1'']) \<and>
   (case readProviderPromptMap
      \<lparr>providers = Some (ProvidersList
         [ProviderObject [(''id'', JString ''y'')],
          ProviderObject [(''anthropic'', JObject [(''id'', JString ''custom'')])],
          ProviderId ''z''])\<rparr>
      [\<lparr>raw = ''a'', label = Some ''p1'', func = None\<rparr>,
       \<lparr>raw = ''b'', label = Some ''p2'', func = None\<rparr>] of
      Inl e \<Rightarrow> None
    | Inr m \<Rightarrow> own m ''custom'') = Some (JArray [JString ''p1'', JString ''p2''])"
proof -
  let ?ps = "[\<lparr>raw = ''a'', label = Some ''p1'', func = None\<rparr>,
              \<lparr>raw = ''b'', label = Some ''p2'', func = None\<rparr>]"
  let ?pre = "[ProviderObject [(''id'', JString ''y'')]]"
  let ?v1 = "JObject [(''prompts'', JArray [JString ''p1''])]"
  let ?rest1 = "[(''second'', JObject [(''id'', JString ''other'')])]"
  let ?post1 = "[ProviderObject [(''anthropic'', JObject [(''id'', JString ''custom'')])]]"
  let ?v2 = "JObject [(''id'', JString ''custom'')]"
  let ?post2 = "[ProviderId ''z'']"
  obtain m1 where ev1: "readProviderPromptMap
      \<lparr>providers = Some (ProvidersList
         (?pre @ ProviderObject ((''openai:gpt-4'', ?v1) # ?rest1) # ?post1))\<rparr> ?ps = Inr m1"
    by (simp add: provider_defs)
  have frame1: "\<forall>e\<in>set ?post1. \<forall>R R'.
      providerEntry (JArray (map labelValue ?ps)) R e = Inr R' \<longrightarrow>
      own R' ''openai:gpt-4'' = own R ''openai:gpt-4''"
    by (simp add: provider_defs)
  have k1: "own m1 ''openai:gpt-4'' = Some (JArray [JString ''p1''])"
    using readProviderPromptMap_keyed_mapping
      [of "''openai:gpt-4''" ?v1 ?rest1 ?pre ?post1 ?ps "[(''prompts'', JArray [JString ''p1''])]"
          "''openai:gpt-4''" m1] ev1 frame1
    by (simp add: getProp_def orElse_def)
  obtain m2 where ev2: "readProviderPromptMap
      \<lparr>providers = Some (ProvidersList
         (?pre @ ProviderObject ((''anthropic'', ?v2) # []) # ?post2))\<rparr> ?ps = Inr m2"
    by (simp add: provider_defs)
  have frame2: "\<forall>e\<in>set ?post2. \<forall>R R'.
      providerEntry (JArray (map labelValue ?ps)) R e = Inr R' \<longrightarrow>
      own R' ''custom'' = own R ''custom''"
    by (simp add: provider_defs)
  have k2: "own m2 ''custom'' = Some (JArray [JString ''p1'', JString ''p2''])"
    using readProviderPromptMap_keyed_mapping
      [of "''anthropic''" ?v2 "[]" ?pre ?post2 ?ps "[(''id'', JString ''custom'')]"
          "''custom''" m2] ev2 frame2
    by (simp add: getProp_def orElse_def labelValue_def)
  from k1 k2 ev1 ev2 show ?thesis by simp
qed

end
